theory Spec2Isabelle
  imports Main "HOL-Library.Word" "HOL-Library.Signed_Division"
begin

section \<open>The ps5000a block-mode example: driver boundary\<close>

text \<open>
  The program is one function, \<open>main\<close> of \<open>ps5000a_BlockMode_Example.cpp\<close>: a linear
  sequence of calls into the vendor driver, each followed by a check of the returned
  status. The driver is closed source, so it is modelled as a \<open>world\<close>: for every
  call site the status (and the out-parameters) the driver answers with, the token
  standard input delivers, and the samples the driver leaves in the two buffers. Every
  call site but \<open>ps5000aIsReady\<close> runs at most once per run, and \<open>ps5000aIsReady\<close>
  is answered per query number, so a \<open>world\<close> can represent the answers of any
  deterministic driver in one run.

  A run of the program is the list of effects it performs (driver calls with the status
  they returned, console output, allocation and release of the buffers, sleeps) together
  with the way it ends.
\<close>

type_synonym PICO_STATUS = "32 word"

text \<open>
  Modelled from the spec: the status enumeration of \<open>PicoStatus.h\<close> is not among the
  sources. The spec says that one value means success and every other value is a failure,
  of which "power supply not connected" is the only one told apart. The numbers are the
  ones of the vendor header; the proofs use only that the two differ.
\<close>

definition PICO_OK :: PICO_STATUS where
  "PICO_OK = 0"

definition PICO_POWER_SUPPLY_NOT_CONNECTED :: PICO_STATUS where
  "PICO_POWER_SUPPLY_NOT_CONNECTED = 281"

text \<open>
  Modelled from the spec: the enumerations of \<open>ps5000aApi.h\<close> are not among the
  sources; the program names four channels and the ranges \<open>PS5000A_1V\<close> and
  \<open>PS5000A_2V\<close>.
\<close>

datatype PS5000A_CHANNEL =
  PS5000A_CHANNEL_A | PS5000A_CHANNEL_B | PS5000A_CHANNEL_C | PS5000A_CHANNEL_D

datatype PS5000A_RANGE =
  PS5000A_10MV | PS5000A_20MV | PS5000A_50MV | PS5000A_100MV | PS5000A_200MV
| PS5000A_500MV | PS5000A_1V | PS5000A_2V | PS5000A_5V | PS5000A_10V | PS5000A_20V
| PS5000A_50V

text \<open>The constants of the program (lines 150, 170, 241, 333).\<close>

definition TIMEOUT_STOP :: int where
  "TIMEOUT_STOP = 2000"

definition NO_OF_SAMPLES :: int where
  "NO_OF_SAMPLES = 100"

definition TIMEBASE :: "32 word" where
  "TIMEBASE = 250000"

definition MAX_ADC :: "16 word" where
  "MAX_ADC = 32767"

text \<open>The two heap arrays of the program, \<open>new int16_t[NO_OF_SAMPLES]\<close> each.\<close>

datatype buffer = bufferA | bufferB

text \<open>
  A driver call with the arguments the program chooses: the status handed to
  \<open>ps5000aChangePowerSource\<close>; channel, enabled flag and range of
  \<open>ps5000aSetChannel\<close>; channel, buffer and buffer length of \<open>ps5000aSetDataBuffer\<close>;
  timebase and sample count of \<open>ps5000aGetTimebase\<close>; pre-trigger count, post-trigger
  count and timebase of \<open>ps5000aRunBlock\<close>; the requested count of
  \<open>ps5000aGetValues\<close>.
\<close>

datatype call =
  OpenUnit
| ChangePowerSource PICO_STATUS
| SetChannel PS5000A_CHANNEL int PS5000A_RANGE
| SetDataBuffer PS5000A_CHANNEL buffer int
| GetTimebase "32 word" int
| SetSimpleTrigger
| SetSigGenBuiltInV2
| RunBlock int int "32 word"
| IsReady
| Stop
| GetValues "32 word"
| CloseUnit

text \<open>
  The effects of a run. \<open>Driver c st\<close> is the call \<open>c\<close> returning status \<open>st\<close>;
  \<open>Report what st\<close> is the line \<open>ERROR : what : st ; hex st\<close>; \<open>GetStatusCode st\<close> is
  the call of the local helper that prints the description of a status;
  \<open>Sample_line b i raw mv\<close> is one printed line of the listing of buffer \<open>b\<close>;
  \<open>Out_of_bounds b i\<close> is a read of \<open>b[i]\<close> past the end of the array, for which
  C++ fixes no value.
\<close>

datatype event =
  Driver call PICO_STATUS
| Report string PICO_STATUS
| GetStatusCode PICO_STATUS
| Cout string
| Cin string
| New buffer int
| Delete buffer
| Sleep int
| IsReady_line int
| Sample_line buffer nat "16 word" int
| Out_of_bounds buffer nat

text \<open>How a run ends: the value \<open>main\<close> returns.\<close>

datatype outcome = Returned int

type_synonym run = "event list \<times> outcome"

record world =
  OpenUnit_status :: PICO_STATUS
  ChangePowerSource_status :: PICO_STATUS
  SetChannel_status :: "PS5000A_CHANNEL \<Rightarrow> PICO_STATUS"
  SetDataBuffer_status :: "PS5000A_CHANNEL \<Rightarrow> PICO_STATUS"
  GetTimebase_status :: PICO_STATUS
  SetSimpleTrigger_status :: PICO_STATUS
  SetSigGenBuiltInV2_status :: PICO_STATUS
  cin_token :: string
  RunBlock_status :: PICO_STATUS
  IsReady_reply :: "nat \<Rightarrow> PICO_STATUS \<times> 16 word"
  Stop_status :: PICO_STATUS
  CloseUnit_status :: PICO_STATUS
  GetValues_reply :: "PICO_STATUS \<times> 32 word"
  samples :: "buffer \<Rightarrow> nat \<Rightarrow> 16 word"

text \<open>
  \<open>IsReady_reply w k\<close> is the status and the readiness flag of the query number \<open>k\<close>
  (from 0). \<open>GetValues_reply w\<close> is the status and the sample count the driver writes
  back. \<open>samples w b i\<close> is the content of \<open>b[i]\<close> when the listing is printed.
\<close>

section \<open>Conversion to millivolts\<close>

text \<open>
  Modelled from the spec: \<open>adc_to_mv\<close> and the table of ranges it uses live in
  \<open>GenericMethods.h\<close>, which is not among the sources. \<open>range_mv\<close> is the full scale
  of a range in millivolts (the \<open>range_mv\<close> of the spec's formula), as the names of the
  ranges say.
\<close>

fun range_mv :: "PS5000A_RANGE \<Rightarrow> int" where
  "range_mv PS5000A_10MV = 10"
| "range_mv PS5000A_20MV = 20"
| "range_mv PS5000A_50MV = 50"
| "range_mv PS5000A_100MV = 100"
| "range_mv PS5000A_200MV = 200"
| "range_mv PS5000A_500MV = 500"
| "range_mv PS5000A_1V = 1000"
| "range_mv PS5000A_2V = 2000"
| "range_mv PS5000A_5V = 5000"
| "range_mv PS5000A_10V = 10000"
| "range_mv PS5000A_20V = 20000"
| "range_mv PS5000A_50V = 50000"

text \<open>
  Modelled from the spec: the formula \<open>mv = code * range_mv / max_adc_code\<close> of the
  absent helper, on integers. \<open>sdiv\<close> is the truncating division of C.
\<close>

definition convert :: "int \<Rightarrow> int \<Rightarrow> int \<Rightarrow> int" where
  "convert code range_millivolts max_adc_code = (code * range_millivolts) sdiv max_adc_code"

text \<open>
  Modelled from the spec: the call \<open>adc_to_mv(raw, range, maxADC)\<close> of the absent helper,
  with the arguments \<open>main\<close> passes: a signed 16-bit sample, a range of the
  enumeration and the signed 16-bit constant \<open>MAX_ADC\<close>.
\<close>

definition adc_to_mv :: "16 word \<Rightarrow> PS5000A_RANGE \<Rightarrow> 16 word \<Rightarrow> int" where
  "adc_to_mv raw rng max_adc = convert (sint raw) (range_mv rng) (sint max_adc)"

section \<open>The program\<close>

text \<open>Effects performed before the rest of the run.\<close>

definition emit :: "event list \<Rightarrow> run \<Rightarrow> run" where
  "emit es r = (es @ fst r, snd r)"

subsection \<open>Closing the unit (lines 347 to 355)\<close>

definition close_unit :: "world \<Rightarrow> run" where
  "close_unit w =
     (let status = CloseUnit_status w in
      if PICO_OK \<noteq> status
      then ([Driver CloseUnit status, Report ''Close Unit'' status, GetStatusCode status],
            Returned (- 1))
      else ([Driver CloseUnit status], Returned 0))"

subsection \<open>The listing and the release of the buffers (lines 332 to 345)\<close>

text \<open>
  \<open>for (auto sampleIndex = 0; sampleIndex < noSamples; sampleIndex++)\<close> over a buffer of
  \<open>NO_OF_SAMPLES\<close> elements. The bound is the count the driver wrote back, an unsigned
  32-bit value, and nothing compares it with the size of the buffer: an index of
  \<open>NO_OF_SAMPLES\<close> or more is read outside the array. The model records such a read as
  \<open>Out_of_bounds\<close> and goes on with the loop, as the compiled program does; the
  statements after the two loops run in every case.
\<close>

function print_loop :: "world \<Rightarrow> buffer \<Rightarrow> 32 word \<Rightarrow> nat \<Rightarrow> event list" where
  "print_loop w b noSamples sampleIndex =
     (if sampleIndex < unat noSamples then
        (if int sampleIndex < NO_OF_SAMPLES
         then Sample_line b sampleIndex (samples w b sampleIndex)
                (adc_to_mv (samples w b sampleIndex) PS5000A_2V MAX_ADC)
         else Out_of_bounds b sampleIndex)
        # print_loop w b noSamples (Suc sampleIndex)
      else [])"
  by pat_completeness auto
termination
  by (relation "measure (\<lambda>(w, b, noSamples, sampleIndex). unat noSamples - sampleIndex)") auto

definition print_buffers :: "world \<Rightarrow> 32 word \<Rightarrow> run" where
  "print_buffers w noSamples =
     emit (Cout ''Print Buffer A : '' # print_loop w bufferA noSamples 0
             @ [Cout '''', Cout ''Print Buffer B : ''] @ print_loop w bufferB noSamples 0
             @ [Delete bufferA, Delete bufferB])
       (close_unit w)"

subsection \<open>Retrieval (lines 323 to 330)\<close>

definition get_values :: "world \<Rightarrow> run" where
  "get_values w =
     (let noSamples = (word_of_int NO_OF_SAMPLES :: 32 word);
          status = fst (GetValues_reply w);
          noSamples' = snd (GetValues_reply w)
      in if PICO_OK \<noteq> status
         then ([Driver (GetValues noSamples) status, Report ''Get Values Issue'' status,
                GetStatusCode status], Returned (- 1))
         else emit [Driver (GetValues noSamples) status] (print_buffers w noSamples'))"

subsection \<open>Waiting for the acquisition (lines 299 to 321)\<close>

text \<open>
  \<open>while (0 == isReady && PICO_OK == status)\<close>. The loop either falls through, with the
  value of \<open>time_acq\<close> (\<open>Inr\<close>), or returns from \<open>main\<close> (\<open>Inl\<close>, the value returned).
  The query number \<open>k\<close> is made when \<open>time_acq = k\<close>: the counter starts at 0 and grows
  by one in every iteration that runs to its end. It never passes \<open>TIMEOUT_STOP + 1\<close>,
  far from the limit of \<open>int32_t\<close>.
\<close>

function wait_loop ::
  "world \<Rightarrow> 16 word \<Rightarrow> PICO_STATUS \<Rightarrow> int \<Rightarrow> event list \<times> (int + int)" where
  "wait_loop w isReady status time_acq =
     (if 0 = isReady \<and> PICO_OK = status then
        (let status' = fst (IsReady_reply w (nat time_acq));
             isReady' = snd (IsReady_reply w (nat time_acq))
         in if PICO_OK \<noteq> status'
            then ([Driver IsReady status', Report ''IsReady Issue'' status',
                   GetStatusCode status'], Inl (- 1))
            else if time_acq > TIMEOUT_STOP
            then ([Driver IsReady status', Driver Stop (Stop_status w),
                   Driver CloseUnit (CloseUnit_status w), Cout ''TIMEOUT '',
                   GetStatusCode status'], Inl (- 1))
            else
              (let rest = wait_loop w isReady' status' (time_acq + 1) in
               (Driver IsReady status' # Sleep 1 # fst rest, snd rest)))
      else ([], Inr time_acq))"
  by pat_completeness auto
termination
  by (relation "measure (\<lambda>(w, isReady, status, time_acq). nat (TIMEOUT_STOP + 1 - time_acq))")
    auto

definition wait_ready :: "world \<Rightarrow> PICO_STATUS \<Rightarrow> run" where
  "wait_ready w status =
     (let isReady = (0 :: 16 word); time_acq = (0 :: int);
          loop = wait_loop w isReady status time_acq
      in case snd loop of
           Inl code \<Rightarrow> (fst loop, Returned code)
         | Inr time_acq' \<Rightarrow> emit (fst loop @ [IsReady_line time_acq']) (get_values w))"

subsection \<open>The confirmation gate and the start of the capture (lines 279 to 297)\<close>

definition run_block :: "world \<Rightarrow> run" where
  "run_block w =
     (let status = RunBlock_status w in
      if PICO_OK \<noteq> status
      then ([Driver (RunBlock 10 (NO_OF_SAMPLES - 11) TIMEBASE) status,
             Report ''RunBlock'' status, GetStatusCode status], Returned (- 1))
      else emit [Driver (RunBlock 10 (NO_OF_SAMPLES - 11) TIMEBASE) status]
             (wait_ready w status))"

text \<open>
  \<open>std::cin >> input\<close> reads one token; when nothing can be read \<open>input\<close> stays empty,
  and \<open>input[0]\<close> of an empty \<open>std::string\<close> is the terminating zero character.
\<close>

definition first_char :: "string \<Rightarrow> char" where
  "first_char input = (case input of [] \<Rightarrow> CHR 0x00 | c # cs \<Rightarrow> c)"

definition confirm :: "world \<Rightarrow> PICO_STATUS \<Rightarrow> run" where
  "confirm w status =
     (let input = cin_token w in
      if first_char input = CHR ''s''
      then emit [Cin input, Cout ''Acquiring ...''] (run_block w)
      else ([Cin input, Cout ''Exiting ...'', GetStatusCode status], Returned (- 1)))"

subsection \<open>Timebase, trigger and signal generator (lines 237 to 277)\<close>

definition set_sig_gen :: "world \<Rightarrow> run" where
  "set_sig_gen w =
     (let status = SetSigGenBuiltInV2_status w in
      if PICO_OK \<noteq> status
      then ([Driver SetSigGenBuiltInV2 status, Report ''AWG Signal Genertion'' status,
             GetStatusCode status], Returned (- 1))
      else emit [Driver SetSigGenBuiltInV2 status] (confirm w status))"

definition set_trigger :: "world \<Rightarrow> run" where
  "set_trigger w =
     (let status = SetSimpleTrigger_status w in
      if PICO_OK \<noteq> status
      then ([Driver SetSimpleTrigger status, Report ''Set Trigger'' status,
             GetStatusCode status], Returned (- 1))
      else emit [Driver SetSimpleTrigger status] (set_sig_gen w))"

definition get_timebase :: "world \<Rightarrow> run" where
  "get_timebase w =
     (let status = GetTimebase_status w in
      if PICO_OK \<noteq> status
      then ([Driver (GetTimebase TIMEBASE NO_OF_SAMPLES) status, Report ''Get Timebase'' status,
             GetStatusCode status], Returned (- 1))
      else emit [Driver (GetTimebase TIMEBASE NO_OF_SAMPLES) status] (set_trigger w))"

subsection \<open>The data buffers (lines 221 to 235)\<close>

definition set_buffer_B :: "world \<Rightarrow> run" where
  "set_buffer_B w =
     (let status = SetDataBuffer_status w PS5000A_CHANNEL_B in
      if PICO_OK \<noteq> status
      then ([Driver (SetDataBuffer PS5000A_CHANNEL_B bufferB NO_OF_SAMPLES) status,
             Report ''Set Buffer Channel B'' status, GetStatusCode status], Returned (- 1))
      else emit [Driver (SetDataBuffer PS5000A_CHANNEL_B bufferB NO_OF_SAMPLES) status]
             (get_timebase w))"

definition set_buffers :: "world \<Rightarrow> run" where
  "set_buffers w =
     emit [New bufferA NO_OF_SAMPLES, New bufferB NO_OF_SAMPLES]
       (let status = SetDataBuffer_status w PS5000A_CHANNEL_A in
        if PICO_OK \<noteq> status
        then ([Driver (SetDataBuffer PS5000A_CHANNEL_A bufferA NO_OF_SAMPLES) status,
               Report ''Set Buffer Channel A'' status, GetStatusCode status], Returned (- 1))
        else emit [Driver (SetDataBuffer PS5000A_CHANNEL_A bufferA NO_OF_SAMPLES) status]
               (set_buffer_B w))"

subsection \<open>The channels (lines 191 to 219)\<close>

definition set_channel_D :: "world \<Rightarrow> run" where
  "set_channel_D w =
     (let status = SetChannel_status w PS5000A_CHANNEL_D in
      if PICO_OK \<noteq> status
      then ([Driver (SetChannel PS5000A_CHANNEL_D 0 PS5000A_1V) status,
             Report ''Set Channel D'' status, GetStatusCode status], Returned (- 1))
      else emit [Driver (SetChannel PS5000A_CHANNEL_D 0 PS5000A_1V) status] (set_buffers w))"

definition set_channel_C :: "world \<Rightarrow> run" where
  "set_channel_C w =
     (let status = SetChannel_status w PS5000A_CHANNEL_C in
      if PICO_OK \<noteq> status
      then ([Driver (SetChannel PS5000A_CHANNEL_C 0 PS5000A_1V) status,
             Report ''Set Channel C'' status, GetStatusCode status], Returned (- 1))
      else emit [Driver (SetChannel PS5000A_CHANNEL_C 0 PS5000A_1V) status]
             (set_channel_D w))"

definition set_channel_B :: "world \<Rightarrow> bool \<Rightarrow> run" where
  "set_channel_B w usbPowered =
     (let status = SetChannel_status w PS5000A_CHANNEL_B in
      if PICO_OK \<noteq> status
      then ([Driver (SetChannel PS5000A_CHANNEL_B 1 PS5000A_1V) status,
             Report ''Set Channel B'' status, GetStatusCode status], Returned (- 1))
      else emit [Driver (SetChannel PS5000A_CHANNEL_B 1 PS5000A_1V) status]
             (if usbPowered then set_channel_C w else set_buffers w))"

text \<open>The failure branch of channel A is the only one that does not call \<open>getStatusCode\<close>.\<close>

definition set_channel_A :: "world \<Rightarrow> bool \<Rightarrow> run" where
  "set_channel_A w usbPowered =
     (let status = SetChannel_status w PS5000A_CHANNEL_A in
      if PICO_OK \<noteq> status
      then ([Driver (SetChannel PS5000A_CHANNEL_A 1 PS5000A_1V) status,
             Report ''Set Channel A'' status], Returned (- 1))
      else emit [Driver (SetChannel PS5000A_CHANNEL_A 1 PS5000A_1V) status]
             (set_channel_B w usbPowered))"

subsection \<open>Opening the unit (lines 165 to 189)\<close>

definition power_checked :: "world \<Rightarrow> bool \<Rightarrow> PICO_STATUS \<Rightarrow> run" where
  "power_checked w usbPowered status =
     (if PICO_OK \<noteq> status
      then ([Report ''Change Power Source'' status, GetStatusCode status], Returned (- 1))
      else set_channel_A w usbPowered)"

definition main :: "world \<Rightarrow> run" where
  "main w =
     (let status = OpenUnit_status w;
          opened = Driver OpenUnit status #
            (if PICO_OK \<noteq> status
             then [Report ''Open Unit'' status, GetStatusCode status] else [])
      in if PICO_POWER_SUPPLY_NOT_CONNECTED = status
         then
           (let status' = ChangePowerSource_status w in
            emit (opened @ [Driver (ChangePowerSource status) status'])
              (power_checked w True status'))
         else emit opened (power_checked w False status))"

section \<open>Worlds and observations used in the statements\<close>

subsection \<open>Which calls succeed\<close>

text \<open>
  \<open>usb_powered w\<close>: the driver answers the open with "power supply not connected".
  \<open>setup_ok w\<close>: every call before the confirmation gate succeeds (the open possibly
  through the change of the power source; channels C and D matter only on USB power).
\<close>

definition usb_powered :: "world \<Rightarrow> bool" where
  "usb_powered w \<longleftrightarrow> OpenUnit_status w = PICO_POWER_SUPPLY_NOT_CONNECTED"

definition power_ok :: "world \<Rightarrow> bool" where
  "power_ok w \<longleftrightarrow> OpenUnit_status w = PICO_OK \<or>
     (OpenUnit_status w = PICO_POWER_SUPPLY_NOT_CONNECTED \<and> ChangePowerSource_status w = PICO_OK)"

definition channels_ok :: "world \<Rightarrow> bool" where
  "channels_ok w \<longleftrightarrow> SetChannel_status w PS5000A_CHANNEL_A = PICO_OK \<and>
     SetChannel_status w PS5000A_CHANNEL_B = PICO_OK \<and>
     (usb_powered w \<longrightarrow> SetChannel_status w PS5000A_CHANNEL_C = PICO_OK \<and>
        SetChannel_status w PS5000A_CHANNEL_D = PICO_OK)"

definition setup_ok :: "world \<Rightarrow> bool" where
  "setup_ok w \<longleftrightarrow> power_ok w \<and> channels_ok w \<and>
     SetDataBuffer_status w PS5000A_CHANNEL_A = PICO_OK \<and>
     SetDataBuffer_status w PS5000A_CHANNEL_B = PICO_OK \<and>
     GetTimebase_status w = PICO_OK \<and> SetSimpleTrigger_status w = PICO_OK \<and>
     SetSigGenBuiltInV2_status w = PICO_OK"

text \<open>The effects of a run up to the gate when every call before it succeeds.\<close>

definition setup_trace :: "world \<Rightarrow> event list" where
  "setup_trace w =
     (if usb_powered w
      then [Driver OpenUnit PICO_POWER_SUPPLY_NOT_CONNECTED,
            Report ''Open Unit'' PICO_POWER_SUPPLY_NOT_CONNECTED,
            GetStatusCode PICO_POWER_SUPPLY_NOT_CONNECTED,
            Driver (ChangePowerSource PICO_POWER_SUPPLY_NOT_CONNECTED) PICO_OK]
      else [Driver OpenUnit PICO_OK])
     @ [Driver (SetChannel PS5000A_CHANNEL_A 1 PS5000A_1V) PICO_OK,
        Driver (SetChannel PS5000A_CHANNEL_B 1 PS5000A_1V) PICO_OK]
     @ (if usb_powered w
        then [Driver (SetChannel PS5000A_CHANNEL_C 0 PS5000A_1V) PICO_OK,
              Driver (SetChannel PS5000A_CHANNEL_D 0 PS5000A_1V) PICO_OK]
        else [])
     @ [New bufferA NO_OF_SAMPLES, New bufferB NO_OF_SAMPLES,
        Driver (SetDataBuffer PS5000A_CHANNEL_A bufferA NO_OF_SAMPLES) PICO_OK,
        Driver (SetDataBuffer PS5000A_CHANNEL_B bufferB NO_OF_SAMPLES) PICO_OK,
        Driver (GetTimebase TIMEBASE NO_OF_SAMPLES) PICO_OK,
        Driver SetSimpleTrigger PICO_OK,
        Driver SetSigGenBuiltInV2 PICO_OK]"

text \<open>The kinds of effect that can occur before the gate.\<close>

fun setup_event :: "event \<Rightarrow> bool" where
  "setup_event (Driver OpenUnit st) = True"
| "setup_event (Driver (ChangePowerSource s) st) = True"
| "setup_event (Driver (SetChannel c e r) st) = True"
| "setup_event (Driver (SetDataBuffer c b n) st) = True"
| "setup_event (Driver (GetTimebase t n) st) = True"
| "setup_event (Driver SetSimpleTrigger st) = True"
| "setup_event (Driver SetSigGenBuiltInV2 st) = True"
| "setup_event (Report what st) = True"
| "setup_event (GetStatusCode st) = True"
| "setup_event (New b n) = True"
| "setup_event e = False"

subsection \<open>The polling loop in closed form\<close>

text \<open>
  \<open>stops w k\<close>: the query number \<open>k\<close> ends the polling: it returns an error status, or
  it reports readiness, or the counter (which equals \<open>k\<close> at that query) is past the
  ceiling. \<open>first_stop w k\<close>: \<open>k\<close> is the first such query.
\<close>

definition stops :: "world \<Rightarrow> nat \<Rightarrow> bool" where
  "stops w k \<longleftrightarrow> fst (IsReady_reply w k) \<noteq> PICO_OK \<or> snd (IsReady_reply w k) \<noteq> 0 \<or>
     int k > TIMEOUT_STOP"

definition first_stop :: "world \<Rightarrow> nat \<Rightarrow> bool" where
  "first_stop w k \<longleftrightarrow> stops w k \<and> (\<forall>j<k. \<not> stops w j)"

text \<open>The last iteration of the loop, and \<open>n\<close> iterations that found the unit busy.\<close>

definition loop_end :: "world \<Rightarrow> nat \<Rightarrow> event list \<times> (int + int)" where
  "loop_end w k =
     (if fst (IsReady_reply w k) \<noteq> PICO_OK
      then ([Driver IsReady (fst (IsReady_reply w k)),
             Report ''IsReady Issue'' (fst (IsReady_reply w k)),
             GetStatusCode (fst (IsReady_reply w k))], Inl (- 1))
      else if int k > TIMEOUT_STOP
      then ([Driver IsReady PICO_OK, Driver Stop (Stop_status w),
             Driver CloseUnit (CloseUnit_status w), Cout ''TIMEOUT '', GetStatusCode PICO_OK],
            Inl (- 1))
      else ([Driver IsReady PICO_OK, Sleep 1], Inr (int k + 1)))"

definition rounds :: "nat \<Rightarrow> event list" where
  "rounds n = concat (replicate n [Driver IsReady PICO_OK, Sleep 1])"

subsection \<open>The listing in closed form\<close>

definition line :: "world \<Rightarrow> buffer \<Rightarrow> nat \<Rightarrow> event" where
  "line w b i = Sample_line b i (samples w b i) (adc_to_mv (samples w b i) PS5000A_2V MAX_ADC)"

definition listing :: "world \<Rightarrow> buffer \<Rightarrow> 32 word \<Rightarrow> event list" where
  "listing w b n =
     map (\<lambda>i. if int i < NO_OF_SAMPLES then line w b i else Out_of_bounds b i) [0..<unat n]"

subsection \<open>The run from the gate on, in closed form\<close>

definition after_ready :: "world \<Rightarrow> run" where
  "after_ready w =
     (if fst (GetValues_reply w) \<noteq> PICO_OK
      then ([Driver (GetValues (word_of_int NO_OF_SAMPLES)) (fst (GetValues_reply w)),
             Report ''Get Values Issue'' (fst (GetValues_reply w)),
             GetStatusCode (fst (GetValues_reply w))], Returned (- 1))
      else (Driver (GetValues (word_of_int NO_OF_SAMPLES)) PICO_OK # Cout ''Print Buffer A : '' #
              listing w bufferA (snd (GetValues_reply w))
              @ [Cout '''', Cout ''Print Buffer B : ''] @ listing w bufferB (snd (GetValues_reply w))
              @ [Delete bufferA, Delete bufferB] @ fst (close_unit w), snd (close_unit w)))"

definition gate_run :: "world \<Rightarrow> nat \<Rightarrow> run" where
  "gate_run w k =
     (if first_char (cin_token w) \<noteq> CHR ''s''
      then ([Cin (cin_token w), Cout ''Exiting ...'', GetStatusCode PICO_OK], Returned (- 1))
      else if RunBlock_status w \<noteq> PICO_OK
      then ([Cin (cin_token w), Cout ''Acquiring ...'',
             Driver (RunBlock 10 (NO_OF_SAMPLES - 11) TIMEBASE) (RunBlock_status w),
             Report ''RunBlock'' (RunBlock_status w), GetStatusCode (RunBlock_status w)],
            Returned (- 1))
      else emit ([Cin (cin_token w), Cout ''Acquiring ...'',
             Driver (RunBlock 10 (NO_OF_SAMPLES - 11) TIMEBASE) PICO_OK] @ rounds k
             @ fst (loop_end w k))
            (case snd (loop_end w k) of
               Inl code \<Rightarrow> ([], Returned code)
             | Inr t \<Rightarrow> emit [IsReady_line t] (after_ready w)))"

subsection \<open>Observations on a run\<close>

fun is_call :: "event \<Rightarrow> bool" where
  "is_call (Driver c st) = True"
| "is_call e = False"

fun is_change_power :: "event \<Rightarrow> bool" where
  "is_change_power (Driver (ChangePowerSource s) st) = True"
| "is_change_power e = False"

fun is_read :: "event \<Rightarrow> bool" where
  "is_read (Cin s) = True"
| "is_read e = False"

fun is_run_block :: "event \<Rightarrow> bool" where
  "is_run_block (Driver (RunBlock pre post tb) st) = True"
| "is_run_block e = False"

fun is_query :: "event \<Rightarrow> bool" where
  "is_query (Driver IsReady st) = True"
| "is_query e = False"

fun is_sleep :: "event \<Rightarrow> bool" where
  "is_sleep (Sleep ms) = True"
| "is_sleep e = False"

fun is_close :: "event \<Rightarrow> bool" where
  "is_close (Driver CloseUnit st) = True"
| "is_close e = False"

fun is_get_values :: "event \<Rightarrow> bool" where
  "is_get_values (Driver (GetValues n) st) = True"
| "is_get_values e = False"



fun is_delete :: "event \<Rightarrow> bool" where
  "is_delete (Delete b) = True"
| "is_delete e = False"

text \<open>A read of an element of a sample buffer: a printed line, or a read past the end.\<close>

fun is_sample_read :: "event \<Rightarrow> bool" where
  "is_sample_read (Sample_line b i raw mv) = True"
| "is_sample_read (Out_of_bounds b i) = True"
| "is_sample_read e = False"


text \<open>
  \<open>none_after A B tr\<close>: in the trace \<open>tr\<close> no effect of kind \<open>B\<close> comes after an effect of
  kind \<open>A\<close>.
\<close>

fun none_after :: "(event \<Rightarrow> bool) \<Rightarrow> (event \<Rightarrow> bool) \<Rightarrow> event list \<Rightarrow> bool" where
  "none_after A B [] = True"
| "none_after A B (e # es) = ((A e \<longrightarrow> list_all (\<lambda>x. \<not> B x) es) \<and> none_after A B es)"

text \<open>
  A failed driver call in the sense of the fail-fast rule as the specification words it:
  any status but success, the power-not-connected answer to the open apart.
  \<open>checked_failure\<close> leaves out the stop call as well, whose status the program
  discards.
\<close>

fun claimed_failure :: "event \<Rightarrow> bool" where
  "claimed_failure (Driver c st) =
     (st \<noteq> PICO_OK \<and> \<not> (c = OpenUnit \<and> st = PICO_POWER_SUPPLY_NOT_CONNECTED))"
| "claimed_failure e = False"

fun checked_failure :: "event \<Rightarrow> bool" where
  "checked_failure (Driver c st) =
     (st \<noteq> PICO_OK \<and> \<not> (c = OpenUnit \<and> st = PICO_POWER_SUPPLY_NOT_CONNECTED) \<and> c \<noteq> Stop)"
| "checked_failure e = False"

definition fails_fast :: "(event \<Rightarrow> bool) \<Rightarrow> run \<Rightarrow> bool" where
  "fails_fast F r \<longleftrightarrow>
     none_after F is_call (fst r) \<and> (list_ex F (fst r) \<longrightarrow> snd r = Returned (- 1))"

subsection \<open>A cooperative driver\<close>

text \<open>
  Every call succeeds, the user types \<open>start\<close>, the unit is ready at the fourth query
  and the driver returns all 100 samples: full scale on channel A, zero on channel B.
\<close>

definition bench :: world where
  "bench = \<lparr>OpenUnit_status = PICO_OK, ChangePowerSource_status = PICO_OK,
     SetChannel_status = (\<lambda>c. PICO_OK), SetDataBuffer_status = (\<lambda>c. PICO_OK),
     GetTimebase_status = PICO_OK, SetSimpleTrigger_status = PICO_OK,
     SetSigGenBuiltInV2_status = PICO_OK, cin_token = ''start'',
     RunBlock_status = PICO_OK,
     IsReady_reply = (\<lambda>k. (PICO_OK, if k < 3 then 0 else 1)),
     Stop_status = PICO_OK, CloseUnit_status = PICO_OK,
     GetValues_reply = (PICO_OK, 100),
     samples = (\<lambda>b i. if b = bufferA then 32767 else 0)\<rparr>"

text \<open>
  The unit never becomes ready: every query succeeds and reports "busy". In \<open>stop_fails\<close>
  the stop call of the timeout path fails as well.
\<close>

definition never_ready :: world where
  "never_ready = bench\<lparr>IsReady_reply := (\<lambda>k. (PICO_OK, 0))\<rparr>"

definition stop_fails :: world where
  "stop_fails = never_ready\<lparr>Stop_status := 1\<rparr>"

subsection \<open>Stages of the setup\<close>






subsection \<open>Drivers that fail somewhere\<close>

text \<open>
  \<open>channel_fails\<close>: the open succeeds and the configuration of the channels fails.
  \<open>query_fails\<close>: the first readiness query returns an error status.
  \<open>retrieval_fails\<close>: the unit is ready at the first query and \<open>ps5000aGetValues\<close>
  fails. \<open>short_block\<close>: the driver returns 3 of the 100 samples asked for.
  \<open>overrun\<close>: the driver writes back a count of 101, one more than the buffers hold.
  \<open>declining\<close>: the user types \<open>no\<close>.
\<close>

definition query_fails :: world where
  "query_fails = bench\<lparr>IsReady_reply := (\<lambda>k. (5, 0))\<rparr>"


definition declining :: world where
  "declining = bench\<lparr>cin_token := ''no''\<rparr>"



definition short_block :: world where
  "short_block = bench\<lparr>GetValues_reply := (PICO_OK, 3)\<rparr>"

section \<open>Auxiliary facts\<close>


subsection \<open>The loops in closed form\<close>

text \<open>
  The equations of the two loops unfold for ever, so they are taken out of the
  simplifier and used one step at a time.
\<close>

declare wait_loop.simps [simp del] print_loop.simps [simp del]

lemma PSNC_neq_OK: "PICO_POWER_SUPPLY_NOT_CONNECTED \<noteq> PICO_OK"
  by (simp add: PICO_POWER_SUPPLY_NOT_CONNECTED_def PICO_OK_def)

lemma wait_loop_from:
  assumes "stops w k" and "\<forall>j. i \<le> j \<and> j < k \<longrightarrow> \<not> stops w j" and "i \<le> k"
  shows "wait_loop w 0 PICO_OK (int i) = (rounds (k - i) @ fst (loop_end w k), snd (loop_end w k))"
  using assms
proof (induction "k - i" arbitrary: i)
  case 0
  then have ik: "i = k" by simp
  have "wait_loop w 0 PICO_OK (int k) = loop_end w k"
  proof (cases "fst (IsReady_reply w k) = PICO_OK \<and> \<not> int k > TIMEOUT_STOP")
    case True
    with \<open>stops w k\<close> have r: "snd (IsReady_reply w k) \<noteq> 0" by (simp add: stops_def)
    have "wait_loop w (snd (IsReady_reply w k)) PICO_OK (int k + 1) = ([], Inr (int k + 1))"
      using r by (subst wait_loop.simps) auto
    with True show ?thesis
      by (subst wait_loop.simps) (simp add: loop_end_def Let_def)
  next
    case False
    then show ?thesis
      by (subst wait_loop.simps) (auto simp add: loop_end_def Let_def)
  qed
  with ik show ?case by (simp add: rounds_def)
next
  case (Suc d)
  then have lt: "i < k" by simp
  with Suc.prems have ns: "\<not> stops w i" by simp
  have step: "wait_loop w 0 PICO_OK (int i) =
      (Driver IsReady PICO_OK # Sleep 1 # fst (wait_loop w 0 PICO_OK (int (Suc i))),
       snd (wait_loop w 0 PICO_OK (int (Suc i))))"
    using ns by (subst wait_loop.simps) (simp add: stops_def Let_def add.commute)
  have "wait_loop w 0 PICO_OK (int (Suc i)) =
      (rounds (k - Suc i) @ fst (loop_end w k), snd (loop_end w k))"
    using Suc.hyps Suc.prems lt by (intro Suc.hyps(1)) auto
  moreover have "k - i = Suc (k - Suc i)" using lt by simp
  ultimately show ?case using step by (simp add: rounds_def)
qed

lemma wait_loop_first_stop:
  assumes "first_stop w k"
  shows "wait_loop w 0 PICO_OK 0 = (rounds k @ fst (loop_end w k), snd (loop_end w k))"
  using wait_loop_from [of w k 0] assms by (simp add: first_stop_def)

lemma stops_ceiling: "stops w (nat (TIMEOUT_STOP + 1))"
  by (simp add: stops_def TIMEOUT_STOP_def)

lemma first_stop_exists: "\<exists>k \<le> nat (TIMEOUT_STOP + 1). first_stop w k"
proof -
  define k where "k = (LEAST k. stops w k)"
  have "stops w k" unfolding k_def by (rule LeastI) (rule stops_ceiling)
  moreover have "\<forall>j<k. \<not> stops w j" unfolding k_def using not_less_Least by blast
  moreover have "k \<le> nat (TIMEOUT_STOP + 1)" unfolding k_def by (rule Least_le) (rule stops_ceiling)
  ultimately show ?thesis unfolding first_stop_def by blast
qed

lemma first_stop_unique: "first_stop w k \<Longrightarrow> first_stop w k' \<Longrightarrow> k = k'"
  unfolding first_stop_def by (meson linorder_neqE_nat)

lemma first_stop_busy:
  assumes "\<And>k. IsReady_reply w k = (PICO_OK, 0)"
  shows "first_stop w (nat (TIMEOUT_STOP + 1))"
  using assms by (auto simp add: first_stop_def stops_def TIMEOUT_STOP_def)


lemma print_loop_from:
  assumes "i \<le> unat n"
  shows "print_loop w b n i =
     map (\<lambda>i. if int i < NO_OF_SAMPLES then line w b i else Out_of_bounds b i) [i..<unat n]"
  using assms
proof (induction "unat n - i" arbitrary: i)
  case 0
  then show ?case by (subst print_loop.simps) simp
next
  case (Suc d)
  then have lt: "i < unat n" by simp
  moreover have "print_loop w b n (Suc i) =
     map (\<lambda>i. if int i < NO_OF_SAMPLES then line w b i else Out_of_bounds b i) [Suc i..<unat n]"
    using Suc lt by (intro Suc.hyps(1)) auto
  ultimately show ?case
    by (subst print_loop.simps) (simp add: line_def upt_conv_Cons)
qed

lemma print_loop_closed: "print_loop w b n 0 = listing w b n"
  by (simp add: print_loop_from listing_def)

subsection \<open>The stages in closed form\<close>

text \<open>
  Every stage as a conditional on the status its driver call returns.
\<close>

lemma close_unit_closed:
  "close_unit w =
     (if CloseUnit_status w \<noteq> PICO_OK
      then ([Driver CloseUnit (CloseUnit_status w), Report ''Close Unit'' (CloseUnit_status w),
             GetStatusCode (CloseUnit_status w)], Returned (- 1))
      else ([Driver CloseUnit PICO_OK], Returned 0))"
  by (auto simp add: close_unit_def Let_def)

lemma print_buffers_closed:
  "print_buffers w n =
     emit (Cout ''Print Buffer A : '' # listing w bufferA n
           @ [Cout '''', Cout ''Print Buffer B : ''] @ listing w bufferB n
           @ [Delete bufferA, Delete bufferB]) (close_unit w)"
  by (simp add: print_buffers_def print_loop_closed)

lemma get_values_closed:
  "get_values w =
     (if fst (GetValues_reply w) \<noteq> PICO_OK
      then ([Driver (GetValues (word_of_int NO_OF_SAMPLES)) (fst (GetValues_reply w)),
             Report ''Get Values Issue'' (fst (GetValues_reply w)),
             GetStatusCode (fst (GetValues_reply w))], Returned (- 1))
      else emit [Driver (GetValues (word_of_int NO_OF_SAMPLES)) PICO_OK]
             (print_buffers w (snd (GetValues_reply w))))"
  by (auto simp add: get_values_def Let_def)

lemma get_values_after_ready: "get_values w = after_ready w"
  by (simp add: get_values_closed print_buffers_closed after_ready_def emit_def)

lemma wait_ready_closed:
  assumes "first_stop w k"
  shows "wait_ready w PICO_OK =
     (case snd (loop_end w k) of
        Inl code \<Rightarrow> (rounds k @ fst (loop_end w k), Returned code)
      | Inr t \<Rightarrow> emit (rounds k @ fst (loop_end w k) @ [IsReady_line t]) (get_values w))"
  by (simp add: wait_ready_def wait_loop_first_stop [OF assms] split: sum.splits)

lemma run_block_closed:
  "run_block w =
     (if RunBlock_status w \<noteq> PICO_OK
      then ([Driver (RunBlock 10 (NO_OF_SAMPLES - 11) TIMEBASE) (RunBlock_status w),
             Report ''RunBlock'' (RunBlock_status w), GetStatusCode (RunBlock_status w)],
            Returned (- 1))
      else emit [Driver (RunBlock 10 (NO_OF_SAMPLES - 11) TIMEBASE) PICO_OK]
             (wait_ready w PICO_OK))"
  by (auto simp add: run_block_def Let_def)

lemma confirm_closed:
  "confirm w st =
     (if first_char (cin_token w) = CHR ''s''
      then emit [Cin (cin_token w), Cout ''Acquiring ...''] (run_block w)
      else ([Cin (cin_token w), Cout ''Exiting ...'', GetStatusCode st], Returned (- 1)))"
  by (simp add: confirm_def Let_def)

lemma confirm_gate_run:
  assumes "first_stop w k"
  shows "confirm w PICO_OK = gate_run w k"
  by (simp add: confirm_closed run_block_closed wait_ready_closed [OF assms]
      get_values_after_ready gate_run_def emit_def split: sum.splits)

lemma set_sig_gen_closed:
  "set_sig_gen w =
     (if SetSigGenBuiltInV2_status w \<noteq> PICO_OK
      then ([Driver SetSigGenBuiltInV2 (SetSigGenBuiltInV2_status w),
             Report ''AWG Signal Genertion'' (SetSigGenBuiltInV2_status w),
             GetStatusCode (SetSigGenBuiltInV2_status w)], Returned (- 1))
      else emit [Driver SetSigGenBuiltInV2 PICO_OK] (confirm w PICO_OK))"
  by (auto simp add: set_sig_gen_def Let_def)

lemma set_trigger_closed:
  "set_trigger w =
     (if SetSimpleTrigger_status w \<noteq> PICO_OK
      then ([Driver SetSimpleTrigger (SetSimpleTrigger_status w),
             Report ''Set Trigger'' (SetSimpleTrigger_status w),
             GetStatusCode (SetSimpleTrigger_status w)], Returned (- 1))
      else emit [Driver SetSimpleTrigger PICO_OK] (set_sig_gen w))"
  by (auto simp add: set_trigger_def Let_def)

lemma get_timebase_closed:
  "get_timebase w =
     (if GetTimebase_status w \<noteq> PICO_OK
      then ([Driver (GetTimebase TIMEBASE NO_OF_SAMPLES) (GetTimebase_status w),
             Report ''Get Timebase'' (GetTimebase_status w),
             GetStatusCode (GetTimebase_status w)], Returned (- 1))
      else emit [Driver (GetTimebase TIMEBASE NO_OF_SAMPLES) PICO_OK] (set_trigger w))"
  by (auto simp add: get_timebase_def Let_def)

lemma set_buffer_B_closed:
  "set_buffer_B w =
     (if SetDataBuffer_status w PS5000A_CHANNEL_B \<noteq> PICO_OK
      then ([Driver (SetDataBuffer PS5000A_CHANNEL_B bufferB NO_OF_SAMPLES)
               (SetDataBuffer_status w PS5000A_CHANNEL_B),
             Report ''Set Buffer Channel B'' (SetDataBuffer_status w PS5000A_CHANNEL_B),
             GetStatusCode (SetDataBuffer_status w PS5000A_CHANNEL_B)], Returned (- 1))
      else emit [Driver (SetDataBuffer PS5000A_CHANNEL_B bufferB NO_OF_SAMPLES) PICO_OK]
             (get_timebase w))"
  by (auto simp add: set_buffer_B_def Let_def)

lemma set_buffers_closed:
  "set_buffers w =
     (if SetDataBuffer_status w PS5000A_CHANNEL_A \<noteq> PICO_OK
      then ([New bufferA NO_OF_SAMPLES, New bufferB NO_OF_SAMPLES,
             Driver (SetDataBuffer PS5000A_CHANNEL_A bufferA NO_OF_SAMPLES)
               (SetDataBuffer_status w PS5000A_CHANNEL_A),
             Report ''Set Buffer Channel A'' (SetDataBuffer_status w PS5000A_CHANNEL_A),
             GetStatusCode (SetDataBuffer_status w PS5000A_CHANNEL_A)], Returned (- 1))
      else emit [New bufferA NO_OF_SAMPLES, New bufferB NO_OF_SAMPLES,
             Driver (SetDataBuffer PS5000A_CHANNEL_A bufferA NO_OF_SAMPLES) PICO_OK]
             (set_buffer_B w))"
  by (auto simp add: set_buffers_def Let_def emit_def)

lemma set_channel_D_closed:
  "set_channel_D w =
     (if SetChannel_status w PS5000A_CHANNEL_D \<noteq> PICO_OK
      then ([Driver (SetChannel PS5000A_CHANNEL_D 0 PS5000A_1V)
               (SetChannel_status w PS5000A_CHANNEL_D),
             Report ''Set Channel D'' (SetChannel_status w PS5000A_CHANNEL_D),
             GetStatusCode (SetChannel_status w PS5000A_CHANNEL_D)], Returned (- 1))
      else emit [Driver (SetChannel PS5000A_CHANNEL_D 0 PS5000A_1V) PICO_OK] (set_buffers w))"
  by (auto simp add: set_channel_D_def Let_def)

lemma set_channel_C_closed:
  "set_channel_C w =
     (if SetChannel_status w PS5000A_CHANNEL_C \<noteq> PICO_OK
      then ([Driver (SetChannel PS5000A_CHANNEL_C 0 PS5000A_1V)
               (SetChannel_status w PS5000A_CHANNEL_C),
             Report ''Set Channel C'' (SetChannel_status w PS5000A_CHANNEL_C),
             GetStatusCode (SetChannel_status w PS5000A_CHANNEL_C)], Returned (- 1))
      else emit [Driver (SetChannel PS5000A_CHANNEL_C 0 PS5000A_1V) PICO_OK]
             (set_channel_D w))"
  by (auto simp add: set_channel_C_def Let_def)

lemma set_channel_B_closed:
  "set_channel_B w u =
     (if SetChannel_status w PS5000A_CHANNEL_B \<noteq> PICO_OK
      then ([Driver (SetChannel PS5000A_CHANNEL_B 1 PS5000A_1V)
               (SetChannel_status w PS5000A_CHANNEL_B),
             Report ''Set Channel B'' (SetChannel_status w PS5000A_CHANNEL_B),
             GetStatusCode (SetChannel_status w PS5000A_CHANNEL_B)], Returned (- 1))
      else emit [Driver (SetChannel PS5000A_CHANNEL_B 1 PS5000A_1V) PICO_OK]
             (if u then set_channel_C w else set_buffers w))"
  by (auto simp add: set_channel_B_def Let_def)

lemma set_channel_A_closed:
  "set_channel_A w u =
     (if SetChannel_status w PS5000A_CHANNEL_A \<noteq> PICO_OK
      then ([Driver (SetChannel PS5000A_CHANNEL_A 1 PS5000A_1V)
               (SetChannel_status w PS5000A_CHANNEL_A),
             Report ''Set Channel A'' (SetChannel_status w PS5000A_CHANNEL_A)], Returned (- 1))
      else emit [Driver (SetChannel PS5000A_CHANNEL_A 1 PS5000A_1V) PICO_OK]
             (set_channel_B w u))"
  by (auto simp add: set_channel_A_def Let_def)

lemma main_closed:
  "main w =
     (if OpenUnit_status w = PICO_OK then emit [Driver OpenUnit PICO_OK] (set_channel_A w False)
      else if OpenUnit_status w \<noteq> PICO_POWER_SUPPLY_NOT_CONNECTED
      then ([Driver OpenUnit (OpenUnit_status w), Report ''Open Unit'' (OpenUnit_status w),
             GetStatusCode (OpenUnit_status w), Report ''Change Power Source'' (OpenUnit_status w),
             GetStatusCode (OpenUnit_status w)], Returned (- 1))
      else if ChangePowerSource_status w \<noteq> PICO_OK
      then ([Driver OpenUnit PICO_POWER_SUPPLY_NOT_CONNECTED,
             Report ''Open Unit'' PICO_POWER_SUPPLY_NOT_CONNECTED,
             GetStatusCode PICO_POWER_SUPPLY_NOT_CONNECTED,
             Driver (ChangePowerSource PICO_POWER_SUPPLY_NOT_CONNECTED)
               (ChangePowerSource_status w),
             Report ''Change Power Source'' (ChangePowerSource_status w),
             GetStatusCode (ChangePowerSource_status w)], Returned (- 1))
      else emit [Driver OpenUnit PICO_POWER_SUPPLY_NOT_CONNECTED,
             Report ''Open Unit'' PICO_POWER_SUPPLY_NOT_CONNECTED,
             GetStatusCode PICO_POWER_SUPPLY_NOT_CONNECTED,
             Driver (ChangePowerSource PICO_POWER_SUPPLY_NOT_CONNECTED) PICO_OK]
            (set_channel_A w True))"
  using PSNC_neq_OK by (auto simp add: main_def power_checked_def Let_def emit_def)

lemmas setup_defs = main_def power_checked_def set_channel_A_def set_channel_B_def
  set_channel_C_def set_channel_D_def set_buffers_def set_buffer_B_def get_timebase_def
  set_trigger_def set_sig_gen_def

lemmas ok_defs = setup_ok_def power_ok_def channels_ok_def usb_powered_def

lemma main_setup_ok:
  assumes "setup_ok w"
  shows "main w = emit (setup_trace w) (confirm w PICO_OK)"
  using assms PSNC_neq_OK
  by (auto simp add: setup_defs ok_defs setup_trace_def emit_def Let_def)

lemma main_setup_failed:
  assumes "\<not> setup_ok w"
  shows "snd (main w) = Returned (- 1) \<and> list_all setup_event (fst (main w))"
  using assms PSNC_neq_OK
  by (auto simp add: setup_defs ok_defs emit_def Let_def)

lemma setup_event_only:
  assumes "\<not> setup_ok w" and "e \<in> set (fst (main w))"
  shows "setup_event e"
  using main_setup_failed [OF assms(1)] assms(2) unfolding list_all_iff by blast


subsection \<open>Induction over the stages of the setup\<close>







subsection \<open>Facts about traces\<close>

lemma set_rounds: "set (rounds k) \<subseteq> {Driver IsReady PICO_OK, Sleep 1}"
  by (induction k) (auto simp add: rounds_def)

lemma in_set_rounds: "x \<in> set (rounds k) \<longleftrightarrow> 0 < k \<and> (x = Driver IsReady PICO_OK \<or> x = Sleep 1)"
  by (induction k) (auto simp add: rounds_def)

lemma in_set_listing:
  "x \<in> set (listing w b n) \<longleftrightarrow>
     (\<exists>i < unat n. x = (if int i < NO_OF_SAMPLES then line w b i else Out_of_bounds b i))"
proof -
  have "set (listing w b n) =
      (\<lambda>i. if int i < NO_OF_SAMPLES then line w b i else Out_of_bounds b i) ` {0..<unat n}"
    by (simp add: listing_def)
  then show ?thesis by (simp only: image_iff Bex_def atLeastLessThan_iff) blast
qed

lemma list_all_rounds [simp]:
  "P (Driver IsReady PICO_OK) \<Longrightarrow> P (Sleep 1) \<Longrightarrow> list_all P (rounds k)"
  using set_rounds [of k] by (auto simp add: list_all_iff)

lemma list_all_listing [simp]:
  "(\<And>i raw mv. P (Sample_line b i raw mv)) \<Longrightarrow> (\<And>i. P (Out_of_bounds b i)) \<Longrightarrow>
   list_all P (listing w b n)"
  by (auto simp add: listing_def line_def list_all_iff)

lemma filter_none: "list_all (\<lambda>e. \<not> P e) xs \<Longrightarrow> filter P xs = []"
  by (induction xs) auto

lemma filter_rounds_none [simp]:
  "\<not> P (Driver IsReady PICO_OK) \<Longrightarrow> \<not> P (Sleep 1) \<Longrightarrow> filter P (rounds k) = []"
  by (rule filter_none) simp

lemma filter_listing_none [simp]:
  "(\<And>i raw mv. \<not> P (Sample_line b i raw mv)) \<Longrightarrow> (\<And>i. \<not> P (Out_of_bounds b i)) \<Longrightarrow>
   filter P (listing w b n) = []"
  by (rule filter_none) simp

lemma list_ex_rounds [simp]:
  "\<not> P (Driver IsReady PICO_OK) \<Longrightarrow> \<not> P (Sleep 1) \<Longrightarrow> \<not> list_ex P (rounds k)"
  by (auto simp add: list_ex_iff in_set_rounds)

lemma list_ex_listing [simp]:
  "(\<And>i raw mv. \<not> P (Sample_line b i raw mv)) \<Longrightarrow> (\<And>i. \<not> P (Out_of_bounds b i)) \<Longrightarrow>
   \<not> list_ex P (listing w b n)"
  by (auto simp add: list_ex_iff in_set_listing line_def split: if_splits)


lemma map_const_upt: "(\<And>j. j < k \<Longrightarrow> f j = c) \<Longrightarrow> map f [0..<k] = replicate k c"
  by (induction k) (simp_all add: replicate_append_same)

lemma filter_reads_listing: "filter is_sample_read (listing w b n) = listing w b n"
  by (rule filter_True) (auto simp add: in_set_listing line_def)

lemma listing_inside:
  assumes "unat n \<le> nat NO_OF_SAMPLES"
  shows "listing w b n =
     map (\<lambda>i. Sample_line b i (samples w b i) (adc_to_mv (samples w b i) PS5000A_2V MAX_ADC))
       [0..<unat n]"
proof -
  have "int i < NO_OF_SAMPLES" if "i < unat n" for i
    using that assms by simp
  then show ?thesis by (simp add: listing_def line_def)
qed

lemmas gate_defs = gate_run_def after_ready_def close_unit_closed loop_end_def emit_def

lemma setup_trace_plain:
  "filter is_read (setup_trace w) = []" "\<not> list_ex is_run_block (setup_trace w)"
  "Cin s \<notin> set (setup_trace w)"
  by (auto simp add: setup_trace_def)

lemma setup_trace_quiet:
  "filter is_close (setup_trace w) = []" "filter is_delete (setup_trace w) = []"
  "filter is_sample_read (setup_trace w) = []" "filter is_get_values (setup_trace w) = []"
  by (simp_all add: setup_trace_def)

lemma filter_polls_rounds: "filter (\<lambda>e. is_query e \<or> is_sleep e) (rounds k) = rounds k"
  by (rule filter_True) (auto simp add: in_set_rounds)

lemma setup_trace_polls: "filter (\<lambda>e. is_query e \<or> is_sleep e) (setup_trace w) = []"
  by (simp add: setup_trace_def)

lemma after_ready_polls: "filter (\<lambda>e. is_query e \<or> is_sleep e) (fst (after_ready w)) = []"
  by (simp add: after_ready_def close_unit_closed)

lemma first_char_starts: "first_char s = CHR ''s'' \<longleftrightarrow> (\<exists>cs. s = CHR ''s'' # cs)"
  by (cases s) (simp_all add: first_char_def)

lemma none_after_append:
  "none_after A B (xs @ ys) \<longleftrightarrow>
     none_after A B xs \<and> none_after A B ys \<and> (list_ex A xs \<longrightarrow> list_all (\<lambda>x. \<not> B x) ys)"
  by (induction xs) auto

lemma none_after_clean: "list_all (\<lambda>e. \<not> A e) xs \<Longrightarrow> none_after A B xs"
  by (induction xs) auto


lemma none_after_iff:
  "none_after A B tr \<longleftrightarrow>
     (\<forall>pre e post. tr = pre @ e # post \<and> A e \<longrightarrow> (\<forall>x \<in> set post. \<not> B x))"
proof (induction tr)
  case Nil
  then show ?case by simp
next
  case (Cons a tr)
  show ?case
  proof
    assume h: "none_after A B (a # tr)"
    show "\<forall>pre e post. a # tr = pre @ e # post \<and> A e \<longrightarrow> (\<forall>x \<in> set post. \<not> B x)"
    proof (intro allI impI)
      fix pre e post
      assume eq: "a # tr = pre @ e # post \<and> A e"
      show "\<forall>x \<in> set post. \<not> B x"
      proof (cases pre)
        case Nil
        with eq h show ?thesis by (auto simp add: list_all_iff)
      next
        case (Cons p ps)
        with eq have "tr = ps @ e # post" by simp
        with eq h Cons.IH show ?thesis by auto
      qed
    qed
  next
    assume h: "\<forall>pre e post. a # tr = pre @ e # post \<and> A e \<longrightarrow> (\<forall>x \<in> set post. \<not> B x)"
    have "A a \<longrightarrow> list_all (\<lambda>x. \<not> B x) tr"
      using h [rule_format, of "[]" a tr] by (auto simp add: list_all_iff)
    moreover have "\<forall>pre e post. tr = pre @ e # post \<and> A e \<longrightarrow> (\<forall>x \<in> set post. \<not> B x)"
    proof (intro allI impI)
      fix pre e post
      assume "tr = pre @ e # post \<and> A e"
      then show "\<forall>x \<in> set post. \<not> B x"
        using h [rule_format, of "a # pre" e post] by simp
    qed
    ultimately show "none_after A B (a # tr)" using Cons.IH by simp
  qed
qed


subsection \<open>Runs from the gate on\<close>

lemma gate_reached:
  assumes "Cin s \<in> set (fst (main w))"
  shows "setup_ok w"
proof (rule ccontr)
  assume "\<not> setup_ok w"
  then have "list_all setup_event (fst (main w))" using main_setup_failed by blast
  with assms have "setup_event (Cin s)" unfolding list_all_iff by blast
  then show False by simp
qed

lemma gate_run_reads:
  "filter is_read (fst (gate_run w k)) = [Cin (cin_token w)]"
  by (simp add: gate_defs split: sum.splits)

lemma gate_run_run_block:
  "list_ex is_run_block (fst (gate_run w k)) \<longleftrightarrow> first_char (cin_token w) = CHR ''s''"
  by (simp add: gate_defs split: sum.splits)

lemma armed_world:
  assumes "Driver (RunBlock a b c) PICO_OK \<in> set (fst (main w))"
  shows "setup_ok w \<and> first_char (cin_token w) = CHR ''s'' \<and> RunBlock_status w = PICO_OK"
proof -
  obtain k where k: "first_stop w k" using first_stop_exists by blast
  have ok: "setup_ok w"
  proof (rule ccontr)
    assume "\<not> setup_ok w"
    from setup_event_only [OF this assms] show False by simp
  qed
  have m: "main w = emit (setup_trace w) (gate_run w k)"
    using main_setup_ok [OF ok] confirm_gate_run [OF k] by simp
  have "Driver (RunBlock a b c) PICO_OK \<notin> set (setup_trace w)"
    by (auto simp add: setup_trace_def)
  with assms have "Driver (RunBlock a b c) PICO_OK \<in> set (fst (gate_run w k))"
    by (simp add: m emit_def)
  then have "first_char (cin_token w) = CHR ''s'' \<and> RunBlock_status w = PICO_OK"
    by (auto simp add: gate_run_def split: if_splits)
  with ok show ?thesis by simp
qed

lemma armed_main:
  assumes "Driver (RunBlock a b c) PICO_OK \<in> set (fst (main w))" and "first_stop w k"
  shows "main w =
     emit (setup_trace w @ [Cin (cin_token w), Cout ''Acquiring ...'',
             Driver (RunBlock 10 (NO_OF_SAMPLES - 11) TIMEBASE) PICO_OK] @ rounds k
             @ fst (loop_end w k))
       (case snd (loop_end w k) of
          Inl code \<Rightarrow> ([], Returned code)
        | Inr t \<Rightarrow> emit [IsReady_line t] (after_ready w))"
proof -
  from armed_world [OF assms(1)]
  have ok: "setup_ok w" and s: "first_char (cin_token w) = CHR ''s''"
    and rb: "RunBlock_status w = PICO_OK" by simp_all
  have "main w = emit (setup_trace w) (gate_run w k)"
    using main_setup_ok [OF ok] confirm_gate_run [OF assms(2)] by simp
  then show ?thesis by (simp add: gate_run_def s rb emit_def)
qed

lemma retrieved_gate:
  assumes "Driver (GetValues m) PICO_OK \<in> set (fst (gate_run w k))"
  shows "filter is_sample_read (fst (gate_run w k)) =
     listing w bufferA (snd (GetValues_reply w)) @ listing w bufferB (snd (GetValues_reply w))"
  using assms
  by (auto simp add: gate_defs in_set_rounds in_set_listing line_def filter_reads_listing
      split: if_splits sum.splits)

subsection \<open>The example drivers\<close>

lemma first_stop_bench: "first_stop bench 3"
  by (auto simp add: first_stop_def stops_def bench_def PICO_OK_def TIMEOUT_STOP_def)

lemma setup_ok_bench: "setup_ok bench"
  by (simp add: ok_defs bench_def PSNC_neq_OK [symmetric])

lemma main_bench: "main bench = emit (setup_trace bench) (gate_run bench 3)"
  using main_setup_ok [OF setup_ok_bench] confirm_gate_run [OF first_stop_bench] by simp

lemma armed_bench: "Driver (RunBlock 10 89 TIMEBASE) PICO_OK \<in> set (fst (main bench))"
  unfolding main_bench
  by (simp add: gate_run_def emit_def NO_OF_SAMPLES_def bench_def first_char_def)



lemma setup_ok_never_ready: "setup_ok never_ready" "setup_ok stop_fails"
  by (simp_all add: ok_defs stop_fails_def never_ready_def bench_def PSNC_neq_OK [symmetric])

lemma main_stop_fails:
  "main stop_fails = emit (setup_trace stop_fails) (gate_run stop_fails (nat (TIMEOUT_STOP + 1)))"
proof -
  have "first_stop stop_fails (nat (TIMEOUT_STOP + 1))"
    by (rule first_stop_busy) (simp add: stop_fails_def never_ready_def)
  then show ?thesis
    using main_setup_ok [OF setup_ok_never_ready(2)] confirm_gate_run by simp
qed

lemma main_never_ready:
  "main never_ready = emit (setup_trace never_ready) (gate_run never_ready (nat (TIMEOUT_STOP + 1)))"
proof -
  have "first_stop never_ready (nat (TIMEOUT_STOP + 1))"
    by (rule first_stop_busy) (simp add: never_ready_def)
  then show ?thesis
    using main_setup_ok [OF setup_ok_never_ready(1)] confirm_gate_run by simp
qed

lemma armed_never_ready:
  "Driver (RunBlock 10 89 TIMEBASE) PICO_OK \<in> set (fst (main never_ready))"
  unfolding main_never_ready
  by (simp add: gate_run_def emit_def NO_OF_SAMPLES_def never_ready_def bench_def first_char_def)

lemma first_stop_never_ready: "first_stop never_ready 2001"
  using first_stop_busy [of never_ready] by (simp add: never_ready_def TIMEOUT_STOP_def)


lemma main_short_block: "main short_block = emit (setup_trace short_block) (gate_run short_block 3)"
proof -
  have ok: "setup_ok short_block"
    by (simp add: ok_defs short_block_def bench_def PSNC_neq_OK [symmetric])
  have "first_stop short_block 3"
    by (auto simp add: first_stop_def stops_def short_block_def bench_def PICO_OK_def
        TIMEOUT_STOP_def)
  then show ?thesis using main_setup_ok [OF ok] confirm_gate_run by simp
qed



lemma adc_to_mv_full_scale:
  "adc_to_mv 32767 PS5000A_2V MAX_ADC = 2000" "adc_to_mv 0 PS5000A_2V MAX_ADC = 0"
  "adc_to_mv 32767 PS5000A_1V MAX_ADC = 1000"
  by (simp_all add: adc_to_mv_def convert_def MAX_ADC_def signed_divide_int_def)


subsection \<open>Calls of the power-source change\<close>

lemma no_change_power_confirm: "filter is_change_power (fst (confirm w PICO_OK)) = []"
proof -
  obtain k where k: "first_stop w k" using first_stop_exists by blast
  show ?thesis
    unfolding confirm_gate_run [OF k]
    by (simp add: gate_defs split: sum.splits)
qed

lemma change_power_count:
  "length (filter is_change_power (fst (main w))) =
     (if OpenUnit_status w = PICO_POWER_SUPPLY_NOT_CONNECTED then 1 else 0)"
  using PSNC_neq_OK no_change_power_confirm [of w]
  by (auto simp add: setup_defs emit_def Let_def)


subsection \<open>Sample counts passed to the driver\<close>




subsection \<open>Failing calls end the run\<close>

lemma fails_fast_emit:
  "list_all (\<lambda>e. \<not> F e) es \<Longrightarrow> fails_fast F (emit es r) = fails_fast F r"
  by (auto simp add: fails_fast_def emit_def none_after_append none_after_clean
      list_ex_iff list_all_iff)

lemma fails_fast_gate_run: "fails_fast checked_failure (gate_run w k)"
  by (simp add: fails_fast_def gate_defs none_after_append none_after_clean split: sum.splits)

lemma fails_fast_confirm: "fails_fast checked_failure (confirm w PICO_OK)"
proof -
  obtain k where k: "first_stop w k" using first_stop_exists by blast
  show ?thesis unfolding confirm_gate_run [OF k] by (rule fails_fast_gate_run)
qed

lemma fails_fast_leaf:
  "fails_fast F ([Driver c st, Report what st, GetStatusCode st], Returned (- 1))"
  "fails_fast F ([Driver c st, Report what st], Returned (- 1))"
  by (simp_all add: fails_fast_def)

lemma fails_fast_set_sig_gen: "fails_fast checked_failure (set_sig_gen w)"
  by (simp add: set_sig_gen_closed fails_fast_emit fails_fast_leaf fails_fast_confirm)

lemma fails_fast_set_trigger: "fails_fast checked_failure (set_trigger w)"
  by (simp add: set_trigger_closed fails_fast_emit fails_fast_leaf fails_fast_set_sig_gen)

lemma fails_fast_get_timebase: "fails_fast checked_failure (get_timebase w)"
  by (simp add: get_timebase_closed fails_fast_emit fails_fast_leaf fails_fast_set_trigger)

lemma fails_fast_set_buffer_B: "fails_fast checked_failure (set_buffer_B w)"
  by (simp add: set_buffer_B_closed fails_fast_emit fails_fast_leaf fails_fast_get_timebase)

lemma fails_fast_set_buffers: "fails_fast checked_failure (set_buffers w)"
  by (simp add: set_buffers_closed fails_fast_emit fails_fast_set_buffer_B)
    (simp add: fails_fast_def)

lemma fails_fast_set_channel_D: "fails_fast checked_failure (set_channel_D w)"
  by (simp add: set_channel_D_closed fails_fast_emit fails_fast_leaf fails_fast_set_buffers)

lemma fails_fast_set_channel_C: "fails_fast checked_failure (set_channel_C w)"
  by (simp add: set_channel_C_closed fails_fast_emit fails_fast_leaf fails_fast_set_channel_D)

lemma fails_fast_set_channel_B: "fails_fast checked_failure (set_channel_B w u)"
  by (simp add: set_channel_B_closed fails_fast_emit fails_fast_leaf fails_fast_set_channel_C
      fails_fast_set_buffers)

lemma fails_fast_set_channel_A: "fails_fast checked_failure (set_channel_A w u)"
  by (simp add: set_channel_A_closed fails_fast_emit fails_fast_leaf fails_fast_set_channel_B)

lemma fails_fast_main: "fails_fast checked_failure (main w)"
  by (simp add: main_closed fails_fast_emit fails_fast_set_channel_A)
    (simp add: fails_fast_def)


subsection \<open>Calls of close\<close>





subsection \<open>Allocation and release of the buffers\<close>





subsection \<open>Laws of the conversion formula\<close>

text \<open>
  The laws of the conversion formula, for a positive maximum code and a range that is
  not negative: zero maps to zero, the maximum code to the range, its negation to the
  negated range, and the conversion is monotone in the code.
\<close>

lemma sdiv_by_positive:
  "0 < m \<Longrightarrow> x sdiv m = (if 0 \<le> x then x div m else - ((- x) div m))" for x m :: int
  by (simp add: signed_divide_int_def sgn_if)

lemma convert_zero: "convert 0 r m = 0"
  by (simp add: convert_def)

lemma mult_sdiv_cancel:
  fixes m k :: int
  assumes "0 < m"
  shows "(m * k) sdiv m = k"
proof (cases "0 \<le> k")
  case True
  then have "0 \<le> m * k" using assms by simp
  then show ?thesis using assms by (simp add: sdiv_by_positive)
next
  case False
  then have "\<not> 0 \<le> m * k" using assms by (simp add: zero_le_mult_iff)
  moreover have "(m * (- k)) div m = - k"
    using assms nonzero_mult_div_cancel_left [of m "- k"] by simp
  then have "(- (m * k)) div m = - k" by simp
  ultimately show ?thesis using assms by (simp add: sdiv_by_positive)
qed

lemma convert_full_scale:
  assumes "0 < m"
  shows "convert m r m = r" and "convert (- m) r m = - r"
  using mult_sdiv_cancel [OF assms, of r] mult_sdiv_cancel [OF assms, of "- r"]
  by (simp_all add: convert_def)

lemma sdiv_mono:
  fixes x y m :: int
  assumes "0 < m" and "x \<le> y"
  shows "x sdiv m \<le> y sdiv m"
proof (cases "0 \<le> x")
  case True
  with assms show ?thesis by (simp add: sdiv_by_positive zdiv_mono1)
next
  case False
  show ?thesis
  proof (cases "0 \<le> y")
    case True
    have "0 \<le> (- x) div m" using False assms(1) by (simp add: pos_imp_zdiv_nonneg_iff)
    moreover have "0 \<le> y div m" using True assms(1) by (simp add: pos_imp_zdiv_nonneg_iff)
    ultimately show ?thesis using False True assms(1) by (simp add: sdiv_by_positive)
  next
    case y: False
    have "(- y) div m \<le> (- x) div m" using assms by (simp add: zdiv_mono1)
    with False y assms(1) show ?thesis by (simp add: sdiv_by_positive)
  qed
qed

lemma convert_mono:
  assumes "0 \<le> r" and "0 < m" and "c \<le> c'"
  shows "convert c r m \<le> convert c' r m"
  unfolding convert_def using assms by (intro sdiv_mono mult_right_mono)

section \<open>The claims\<close>

subsection \<open>Fail-fast handling of driver statuses\<close>

text \<open>
  Claim C1, as the specification words it: whenever a driver call returns a status other
  than success (the power-not-connected answer to the open apart), no driver call follows
  it. The program does not keep the status of \<open>ps5000aStop\<close> on the timeout path and
  calls \<open>ps5000aCloseUnit\<close> right after it: with a driver that never becomes ready and
  whose stop call fails, a driver call follows a failed one.
\<close>

theorem fail_fast_stop_counterexample:
  "\<not> none_after claimed_failure is_call (fst (main stop_fails))"
proof -
  have "fst (main stop_fails) =
      (setup_trace stop_fails @ [Cin ''start'', Cout ''Acquiring ...'',
         Driver (RunBlock 10 (NO_OF_SAMPLES - 11) TIMEBASE) PICO_OK]
       @ rounds (nat (TIMEOUT_STOP + 1)) @ [Driver IsReady PICO_OK])
      @ [Driver Stop 1, Driver CloseUnit PICO_OK, Cout ''TIMEOUT '', GetStatusCode PICO_OK]"
    unfolding main_stop_fails
    by (simp add: gate_defs TIMEOUT_STOP_def stop_fails_def never_ready_def bench_def
        first_char_def)
  then show ?thesis
    by (simp add: none_after_append PICO_OK_def)
qed

text \<open>
  Claim C1, amended: for every driver call other than the stop call of the timeout path,
  a status other than success (the power-not-connected answer to the open apart) ends the
  run: no driver call follows it in the trace, so nothing is retried, and \<open>main\<close>
  returns \<open>-1\<close>. By \<open>none_after_iff\<close>, \<open>none_after A B tr\<close> says that whenever
  \<open>tr = pre @ e # post\<close> with \<open>A e\<close>, no element of \<open>post\<close> satisfies \<open>B\<close>.
\<close>

theorem fail_fast:
  "none_after checked_failure is_call (fst (main w)) \<and>
   (list_ex checked_failure (fst (main w)) \<longrightarrow> snd (main w) = Returned (- 1))"
  using fails_fast_main [of w] by (simp add: fails_fast_def)

theorem fail_fast_witness:
  "list_ex checked_failure (fst (main (bench\<lparr>GetTimebase_status := 5\<rparr>))) \<and>
   none_after checked_failure is_call (fst (main (bench\<lparr>GetTimebase_status := 5\<rparr>))) \<and>
   snd (main (bench\<lparr>GetTimebase_status := 5\<rparr>)) = Returned (- 1)"
proof -
  have "list_ex checked_failure (fst (main (bench\<lparr>GetTimebase_status := 5\<rparr>)))"
    by (simp add: main_closed set_channel_A_closed set_channel_B_closed set_buffers_closed
        set_buffer_B_closed get_timebase_closed emit_def bench_def PICO_OK_def)
  with fail_fast [of "bench\<lparr>GetTimebase_status := 5\<rparr>"] show ?thesis by simp
qed

subsection \<open>The polling loop\<close>

text \<open>
  Claim C2, as the specification words it: each iteration of the polling loop sleeps and
  increments the counter. An iteration that ends the run does neither: when the first
  query returns an error status, the program reports it and returns \<open>-1\<close> straight
  after the query. The run has one query and no sleep.
\<close>

theorem polling_error_counterexample:
  "main query_fails =
     ([Driver OpenUnit PICO_OK,
       Driver (SetChannel PS5000A_CHANNEL_A 1 PS5000A_1V) PICO_OK,
       Driver (SetChannel PS5000A_CHANNEL_B 1 PS5000A_1V) PICO_OK,
       New bufferA 100, New bufferB 100,
       Driver (SetDataBuffer PS5000A_CHANNEL_A bufferA 100) PICO_OK,
       Driver (SetDataBuffer PS5000A_CHANNEL_B bufferB 100) PICO_OK,
       Driver (GetTimebase TIMEBASE 100) PICO_OK,
       Driver SetSimpleTrigger PICO_OK,
       Driver SetSigGenBuiltInV2 PICO_OK,
       Cin ''start'', Cout ''Acquiring ...'',
       Driver (RunBlock 10 89 TIMEBASE) PICO_OK,
       Driver IsReady 5, Report ''IsReady Issue'' 5, GetStatusCode 5],
      Returned (- 1)) \<and>
   filter is_query (fst (main query_fails)) = [Driver IsReady 5] \<and>
   filter is_sleep (fst (main query_fails)) = []"
proof -
  have ok: "setup_ok query_fails"
    by (simp add: ok_defs query_fails_def bench_def PSNC_neq_OK [symmetric])
  have "first_stop query_fails 0"
    by (simp add: first_stop_def stops_def query_fails_def PICO_OK_def)
  then have "main query_fails = emit (setup_trace query_fails) (gate_run query_fails 0)"
    using main_setup_ok [OF ok] confirm_gate_run by simp
  then show ?thesis
    by (simp add: setup_trace_def usb_powered_def gate_defs rounds_def NO_OF_SAMPLES_def
        TIMEOUT_STOP_def query_fails_def bench_def first_char_def PICO_OK_def
        PICO_POWER_SUPPLY_NOT_CONNECTED_def)
qed

text \<open>
  Claim C2, amended. In a run whose \<open>ps5000aRunBlock\<close> call succeeded, let \<open>k\<close> be the
  first query that returns an error status, or reports readiness, or is made with the
  counter past \<open>TIMEOUT_STOP\<close>. The queries and sleeps of the run are, in this order:
  for each \<open>j < k\<close> the query \<open>j\<close> followed by a sleep of one millisecond, then the
  query \<open>k\<close>, at least one query in all and none after the first that ends the polling,
  followed by one more sleep exactly when query \<open>k\<close> succeeded with the counter not
  past the ceiling. So every iteration sleeps and increments the counter except the one
  that returns from \<open>main\<close> on an error status or on the timeout. The loop falls through
  with the counter equal to the number of sleeps, \<open>k + 1\<close>, which the program prints,
  and returns \<open>-1\<close> otherwise. The first stopping query is never later than number
  \<open>TIMEOUT_STOP + 1\<close>.
\<close>

theorem polling_loop:
  assumes "Driver (RunBlock a b c) PICO_OK \<in> set (fst (main w))" and "first_stop w k"
  shows "filter (\<lambda>e. is_query e \<or> is_sleep e) (fst (main w)) =
           concat (map (\<lambda>j. [Driver IsReady (fst (IsReady_reply w j)), Sleep 1]) [0..<k]) @
           Driver IsReady (fst (IsReady_reply w k)) #
           (if fst (IsReady_reply w k) = PICO_OK \<and> int k \<le> TIMEOUT_STOP
            then [Sleep 1] else []) \<and>
         snd (wait_loop w 0 PICO_OK 0) =
           (if fst (IsReady_reply w k) = PICO_OK \<and> int k \<le> TIMEOUT_STOP
            then Inr (int (Suc k)) else Inl (- 1)) \<and>
         (fst (IsReady_reply w k) = PICO_OK \<and> int k \<le> TIMEOUT_STOP \<longrightarrow>
            IsReady_line (int (Suc k)) \<in> set (fst (main w))) \<and>
         int k \<le> TIMEOUT_STOP + 1"
proof -
  have busy: "fst (IsReady_reply w j) = PICO_OK" if "j < k" for j
    using assms(2) that by (auto simp add: first_stop_def stops_def)
  have q: "concat (map (\<lambda>j. [Driver IsReady (fst (IsReady_reply w j)), Sleep 1]) [0..<k]) =
      rounds k"
    using map_const_upt [of k "\<lambda>j. [Driver IsReady (fst (IsReady_reply w j)), Sleep 1]"
        "[Driver IsReady PICO_OK, Sleep 1]"] busy by (simp add: rounds_def)
  have bound: "int k \<le> TIMEOUT_STOP + 1"
  proof -
    obtain k' where "k' \<le> nat (TIMEOUT_STOP + 1)" and "first_stop w k'"
      using first_stop_exists by blast
    with assms(2) have "k \<le> nat (TIMEOUT_STOP + 1)" using first_stop_unique by blast
    then show ?thesis by (simp add: TIMEOUT_STOP_def)
  qed
  have "filter (\<lambda>e. is_query e \<or> is_sleep e) (fst (main w)) =
      rounds k @ Driver IsReady (fst (IsReady_reply w k)) #
      (if fst (IsReady_reply w k) = PICO_OK \<and> int k \<le> TIMEOUT_STOP then [Sleep 1] else [])"
    unfolding armed_main [OF assms]
    by (simp add: emit_def setup_trace_polls filter_polls_rounds after_ready_polls loop_end_def
        split: sum.splits)
  moreover have "snd (wait_loop w 0 PICO_OK 0) =
      (if fst (IsReady_reply w k) = PICO_OK \<and> int k \<le> TIMEOUT_STOP
       then Inr (int (Suc k)) else Inl (- 1))"
    by (simp add: wait_loop_first_stop [OF assms(2)] loop_end_def add.commute)
  moreover have "IsReady_line (int (Suc k)) \<in> set (fst (main w))"
    if "fst (IsReady_reply w k) = PICO_OK \<and> int k \<le> TIMEOUT_STOP"
    unfolding armed_main [OF assms] using that
    by (simp add: emit_def loop_end_def add.commute)
  ultimately show ?thesis using q bound by simp
qed

theorem polling_loop_witness:
  "Driver (RunBlock 10 89 TIMEBASE) PICO_OK \<in> set (fst (main bench)) \<and> first_stop bench 3 \<and>
   filter (\<lambda>e. is_query e \<or> is_sleep e) (fst (main bench)) =
     [Driver IsReady PICO_OK, Sleep 1, Driver IsReady PICO_OK, Sleep 1,
      Driver IsReady PICO_OK, Sleep 1, Driver IsReady PICO_OK, Sleep 1] \<and>
   snd (wait_loop bench 0 PICO_OK 0) = Inr 4 \<and>
   IsReady_line 4 \<in> set (fst (main bench))"
proof -
  have "[0..<3] = [0, 1, 2]" by (simp add: upt_rec)
  moreover have "fst (IsReady_reply bench j) = PICO_OK" for j by (simp add: bench_def)
  moreover have "(3 :: int) \<le> TIMEOUT_STOP" by (simp add: TIMEOUT_STOP_def)
  ultimately show ?thesis
    using polling_loop [OF armed_bench first_stop_bench] armed_bench first_stop_bench
    by simp
qed

subsection \<open>The timeout path\<close>

text \<open>
  Claim C3. When the capture has been started and the counter passes \<open>TIMEOUT_STOP\<close>
  with every query so far successful and none of the earlier ones ready, the run ends
  with \<open>ps5000aStop\<close>, then \<open>ps5000aCloseUnit\<close>, then the report \<open>TIMEOUT\<close> and the
  description of the status, and \<open>main\<close> returns \<open>-1\<close>. Nothing follows: no element of
  a sample buffer is read and \<open>ps5000aGetValues\<close> is not called in that run.
\<close>

theorem timeout_teardown:
  assumes "Driver (RunBlock a b c) PICO_OK \<in> set (fst (main w))" and "first_stop w k"
    and "TIMEOUT_STOP < int k" and "fst (IsReady_reply w k) = PICO_OK"
  shows "(\<exists>pre. fst (main w) = pre @ [Driver Stop (Stop_status w),
            Driver CloseUnit (CloseUnit_status w), Cout ''TIMEOUT '', GetStatusCode PICO_OK]) \<and>
         \<not> list_ex is_sample_read (fst (main w)) \<and>
         \<not> list_ex is_get_values (fst (main w)) \<and>
         snd (main w) = Returned (- 1)"
proof -
  have m: "main w =
     ((setup_trace w @ [Cin (cin_token w), Cout ''Acquiring ...'',
         Driver (RunBlock 10 (NO_OF_SAMPLES - 11) TIMEBASE) PICO_OK] @ rounds k
         @ [Driver IsReady PICO_OK])
       @ [Driver Stop (Stop_status w), Driver CloseUnit (CloseUnit_status w),
          Cout ''TIMEOUT '', GetStatusCode PICO_OK], Returned (- 1))"
    unfolding armed_main [OF assms(1,2)] using assms(3,4)
    by (simp add: emit_def loop_end_def)
  have "\<not> list_ex is_sample_read (setup_trace w)" "\<not> list_ex is_get_values (setup_trace w)"
    by (simp_all add: setup_trace_def)
  then have "\<not> list_ex is_sample_read (fst (main w))" "\<not> list_ex is_get_values (fst (main w))"
    unfolding m by simp_all
  moreover have "\<exists>pre. fst (main w) = pre @ [Driver Stop (Stop_status w),
            Driver CloseUnit (CloseUnit_status w), Cout ''TIMEOUT '', GetStatusCode PICO_OK]"
    unfolding m fst_conv by (rule exI) (rule refl)
  ultimately show ?thesis using m by simp
qed

theorem timeout_teardown_witness:
  "Driver (RunBlock 10 89 TIMEBASE) PICO_OK \<in> set (fst (main never_ready)) \<and>
   first_stop never_ready 2001 \<and>
   (\<exists>pre. fst (main never_ready) = pre @ [Driver Stop PICO_OK, Driver CloseUnit PICO_OK,
      Cout ''TIMEOUT '', GetStatusCode PICO_OK]) \<and>
   \<not> list_ex is_sample_read (fst (main never_ready)) \<and>
   \<not> list_ex is_get_values (fst (main never_ready)) \<and>
   snd (main never_ready) = Returned (- 1)"
proof -
  have "TIMEOUT_STOP < int 2001" by (simp add: TIMEOUT_STOP_def)
  moreover have "fst (IsReady_reply never_ready 2001) = PICO_OK" by (simp add: never_ready_def)
  moreover have "Stop_status never_ready = PICO_OK" "CloseUnit_status never_ready = PICO_OK"
    by (simp_all add: never_ready_def bench_def)
  ultimately show ?thesis
    using timeout_teardown [OF armed_never_ready first_stop_never_ready]
      armed_never_ready first_stop_never_ready
    by simp
qed

subsection \<open>Closing the unit\<close>




subsection \<open>The range used by the conversion\<close>

text \<open>
  Claim C5 says that the conversion is evaluated with the range the channel is configured
  with. The program configures channels A and B with \<open>PS5000A_1V\<close> and converts with
  \<open>PS5000A_2V\<close>: with the cooperative driver, the full-scale sample of channel A is
  printed as 2000 mV, where the configured range gives 1000 mV.
\<close>

theorem listing_range_mismatch:
  "Driver (SetChannel PS5000A_CHANNEL_A 1 PS5000A_1V) PICO_OK \<in> set (fst (main bench)) \<and>
   Sample_line bufferA 0 32767 2000 \<in> set (fst (main bench)) \<and>
   adc_to_mv 32767 PS5000A_1V MAX_ADC = 1000"
proof -
  have "Driver (SetChannel PS5000A_CHANNEL_A 1 PS5000A_1V) PICO_OK \<in> set (fst (main bench))"
    unfolding main_bench by (simp add: emit_def setup_trace_def)
  moreover have "line bench bufferA 0 \<in> set (listing bench bufferA 100)"
    unfolding in_set_listing by (rule exI [of _ 0]) (simp add: NO_OF_SAMPLES_def)
  then have "Sample_line bufferA 0 32767 2000 \<in> set (fst (main bench))"
    unfolding main_bench
    by (simp add: gate_defs NO_OF_SAMPLES_def TIMEOUT_STOP_def first_char_def line_def
        adc_to_mv_full_scale bench_def)
  ultimately show ?thesis by (simp add: adc_to_mv_full_scale)
qed

subsection \<open>The listing is bounded by the returned count\<close>

text \<open>
  Claim C6. When the retrieval call succeeded and the driver wrote back a count \<open>n\<close>
  that does not exceed the size of the buffers, the elements of the buffers that the run
  reads are exactly the indices \<open>0, ..., n - 1\<close> of \<open>bufferA\<close> followed by the
  indices \<open>0, ..., n - 1\<close> of \<open>bufferB\<close>, one printed line each: the bound of both
  loops is the count the driver returned, not the count of 100 that was asked for.
\<close>

theorem listing_bound:
  assumes "Driver (GetValues m) PICO_OK \<in> set (fst (main w))"
    and "unat (snd (GetValues_reply w)) \<le> nat NO_OF_SAMPLES"
  shows "filter is_sample_read (fst (main w)) =
     map (\<lambda>i. Sample_line bufferA i (samples w bufferA i)
                (adc_to_mv (samples w bufferA i) PS5000A_2V MAX_ADC))
       [0..<unat (snd (GetValues_reply w))] @
     map (\<lambda>i. Sample_line bufferB i (samples w bufferB i)
                (adc_to_mv (samples w bufferB i) PS5000A_2V MAX_ADC))
       [0..<unat (snd (GetValues_reply w))]"
proof -
  obtain k where k: "first_stop w k" using first_stop_exists by blast
  have ok: "setup_ok w"
  proof (rule ccontr)
    assume "\<not> setup_ok w"
    from setup_event_only [OF this assms(1)] show False by simp
  qed
  have m: "main w = emit (setup_trace w) (gate_run w k)"
    using main_setup_ok [OF ok] confirm_gate_run [OF k] by simp
  have "Driver (GetValues m) PICO_OK \<notin> set (setup_trace w)"
    by (auto simp add: setup_trace_def)
  with assms(1) have "Driver (GetValues m) PICO_OK \<in> set (fst (gate_run w k))"
    by (simp add: m emit_def)
  from retrieved_gate [OF this] assms(2) show ?thesis
    by (simp add: m emit_def setup_trace_quiet listing_inside)
qed

theorem listing_bound_witness:
  "Driver (GetValues 100) PICO_OK \<in> set (fst (main short_block)) \<and>
   unat (snd (GetValues_reply short_block)) = 3 \<and>
   filter is_sample_read (fst (main short_block)) =
     [Sample_line bufferA 0 32767 2000, Sample_line bufferA 1 32767 2000,
      Sample_line bufferA 2 32767 2000,
      Sample_line bufferB 0 0 0, Sample_line bufferB 1 0 0, Sample_line bufferB 2 0 0]"
proof -
  have g: "Driver (GetValues 100) PICO_OK \<in> set (fst (main short_block))"
    unfolding main_short_block
    by (simp add: gate_defs NO_OF_SAMPLES_def TIMEOUT_STOP_def short_block_def bench_def
        first_char_def)
  have n: "unat (snd (GetValues_reply short_block)) = 3"
    by (simp add: short_block_def)
  have u: "[0..<3] = [0, 1, 2]" by (simp add: upt_rec)
  have s: "samples short_block bufferA i = 32767" "samples short_block bufferB i = 0" for i
    by (simp_all add: short_block_def bench_def)
  from listing_bound [OF g] show ?thesis
    using g by (simp add: n u s adc_to_mv_full_scale NO_OF_SAMPLES_def)
qed

subsection \<open>The confirmation gate\<close>

text \<open>
  Claim C7. A run that reaches the gate reads exactly one token from standard input.
  \<open>ps5000aRunBlock\<close> is called if and only if the token begins with the character
  \<open>s\<close>; for every other token, the empty one included, the program prints
  \<open>Exiting ...\<close> and the description of the current status, and returns \<open>-1\<close>
  without starting the capture.
\<close>

theorem confirmation_gate:
  assumes "Cin s \<in> set (fst (main w))"
  shows "s = cin_token w \<and> filter is_read (fst (main w)) = [Cin s] \<and>
     (list_ex is_run_block (fst (main w)) \<longleftrightarrow> (\<exists>cs. s = CHR ''s'' # cs)) \<and>
     ((\<nexists>cs. s = CHR ''s'' # cs) \<longrightarrow>
        snd (main w) = Returned (- 1) \<and>
        (\<exists>pre. fst (main w) = pre @ [Cin s, Cout ''Exiting ...'', GetStatusCode PICO_OK]))"
proof -
  obtain k where k: "first_stop w k" using first_stop_exists by blast
  have ok: "setup_ok w" using assms by (rule gate_reached)
  have m: "main w = emit (setup_trace w) (gate_run w k)"
    using main_setup_ok [OF ok] confirm_gate_run [OF k] by simp
  have r: "filter is_read (fst (main w)) = [Cin (cin_token w)]"
    by (simp add: m emit_def setup_trace_plain gate_run_reads)
  moreover from assms have "Cin s \<in> set (filter is_read (fst (main w)))" by simp
  ultimately have s: "s = cin_token w" by simp
  have rb: "list_ex is_run_block (fst (main w)) \<longleftrightarrow> (\<exists>cs. s = CHR ''s'' # cs)"
    using gate_run_run_block [of w k]
    by (simp add: m emit_def setup_trace_plain s first_char_starts)
  have "snd (main w) = Returned (- 1) \<and>
        (\<exists>pre. fst (main w) = pre @ [Cin s, Cout ''Exiting ...'', GetStatusCode PICO_OK])"
    if "\<nexists>cs. s = CHR ''s'' # cs"
    using that by (simp add: m s emit_def gate_run_def first_char_starts)
  with s rb r show ?thesis by simp
qed

theorem confirmation_gate_witness:
  "Cin ''start'' \<in> set (fst (main bench)) \<and>
   filter is_read (fst (main bench)) = [Cin ''start''] \<and>
   list_ex is_run_block (fst (main bench)) \<and>
   Cin ''no'' \<in> set (fst (main declining)) \<and>
   filter is_read (fst (main declining)) = [Cin ''no''] \<and>
   \<not> list_ex is_run_block (fst (main declining)) \<and>
   snd (main declining) = Returned (- 1)"
proof -
  have a: "Cin ''start'' \<in> set (fst (main bench))"
    unfolding main_bench by (simp add: gate_run_def emit_def bench_def first_char_def)
  have ok: "setup_ok declining"
    by (simp add: ok_defs declining_def bench_def PSNC_neq_OK [symmetric])
  have b: "Cin ''no'' \<in> set (fst (main declining))"
    unfolding main_setup_ok [OF ok] confirm_closed by (simp add: emit_def declining_def)
  from confirmation_gate [OF a] confirmation_gate [OF b] a b show ?thesis
    by simp
qed

subsection \<open>Power-source remediation\<close>

text \<open>
  Claim C8. The program calls \<open>ps5000aChangePowerSource\<close> exactly once when the open
  returns the power-supply-not-connected status and never otherwise. In that case the run
  ends at once with \<open>-1\<close> when the remediation call fails too, with no further driver
  call; when the remediation call succeeds the workflow goes on: the next driver call is
  the configuration of channel A.
\<close>

theorem power_source_change:
  "length (filter is_change_power (fst (main w))) =
     (if OpenUnit_status w = PICO_POWER_SUPPLY_NOT_CONNECTED then 1 else 0) \<and>
   (OpenUnit_status w = PICO_POWER_SUPPLY_NOT_CONNECTED \<and> ChangePowerSource_status w \<noteq> PICO_OK \<longrightarrow>
      main w =
        ([Driver OpenUnit PICO_POWER_SUPPLY_NOT_CONNECTED,
          Report ''Open Unit'' PICO_POWER_SUPPLY_NOT_CONNECTED,
          GetStatusCode PICO_POWER_SUPPLY_NOT_CONNECTED,
          Driver (ChangePowerSource PICO_POWER_SUPPLY_NOT_CONNECTED) (ChangePowerSource_status w),
          Report ''Change Power Source'' (ChangePowerSource_status w),
          GetStatusCode (ChangePowerSource_status w)], Returned (- 1))) \<and>
   (OpenUnit_status w = PICO_POWER_SUPPLY_NOT_CONNECTED \<and> ChangePowerSource_status w = PICO_OK \<longrightarrow>
      (\<exists>rest. fst (main w) =
        [Driver OpenUnit PICO_POWER_SUPPLY_NOT_CONNECTED,
         Report ''Open Unit'' PICO_POWER_SUPPLY_NOT_CONNECTED,
         GetStatusCode PICO_POWER_SUPPLY_NOT_CONNECTED,
         Driver (ChangePowerSource PICO_POWER_SUPPLY_NOT_CONNECTED) PICO_OK,
         Driver (SetChannel PS5000A_CHANNEL_A 1 PS5000A_1V)
           (SetChannel_status w PS5000A_CHANNEL_A)] @ rest))"
proof (intro conjI impI)
  show "length (filter is_change_power (fst (main w))) =
     (if OpenUnit_status w = PICO_POWER_SUPPLY_NOT_CONNECTED then 1 else 0)"
    by (rule change_power_count)
next
  assume "OpenUnit_status w = PICO_POWER_SUPPLY_NOT_CONNECTED \<and> ChangePowerSource_status w \<noteq> PICO_OK"
  then show "main w =
        ([Driver OpenUnit PICO_POWER_SUPPLY_NOT_CONNECTED,
          Report ''Open Unit'' PICO_POWER_SUPPLY_NOT_CONNECTED,
          GetStatusCode PICO_POWER_SUPPLY_NOT_CONNECTED,
          Driver (ChangePowerSource PICO_POWER_SUPPLY_NOT_CONNECTED) (ChangePowerSource_status w),
          Report ''Change Power Source'' (ChangePowerSource_status w),
          GetStatusCode (ChangePowerSource_status w)], Returned (- 1))"
    using PSNC_neq_OK by (auto simp add: main_def power_checked_def emit_def Let_def)
next
  assume "OpenUnit_status w = PICO_POWER_SUPPLY_NOT_CONNECTED \<and> ChangePowerSource_status w = PICO_OK"
  then show "\<exists>rest. fst (main w) =
        [Driver OpenUnit PICO_POWER_SUPPLY_NOT_CONNECTED,
         Report ''Open Unit'' PICO_POWER_SUPPLY_NOT_CONNECTED,
         GetStatusCode PICO_POWER_SUPPLY_NOT_CONNECTED,
         Driver (ChangePowerSource PICO_POWER_SUPPLY_NOT_CONNECTED) PICO_OK,
         Driver (SetChannel PS5000A_CHANNEL_A 1 PS5000A_1V)
           (SetChannel_status w PS5000A_CHANNEL_A)] @ rest"
    using PSNC_neq_OK
    by (auto simp add: main_def power_checked_def set_channel_A_def emit_def Let_def)
qed

theorem power_source_change_witness:
  "length (filter is_change_power
      (fst (main (bench\<lparr>OpenUnit_status := PICO_POWER_SUPPLY_NOT_CONNECTED\<rparr>)))) = 1 \<and>
   (\<exists>rest. fst (main (bench\<lparr>OpenUnit_status := PICO_POWER_SUPPLY_NOT_CONNECTED\<rparr>)) =
        [Driver OpenUnit PICO_POWER_SUPPLY_NOT_CONNECTED,
         Report ''Open Unit'' PICO_POWER_SUPPLY_NOT_CONNECTED,
         GetStatusCode PICO_POWER_SUPPLY_NOT_CONNECTED,
         Driver (ChangePowerSource PICO_POWER_SUPPLY_NOT_CONNECTED) PICO_OK,
         Driver (SetChannel PS5000A_CHANNEL_A 1 PS5000A_1V) PICO_OK] @ rest)"
  using power_source_change [of "bench\<lparr>OpenUnit_status := PICO_POWER_SUPPLY_NOT_CONNECTED\<rparr>"]
  by (simp add: bench_def)

subsection \<open>Lifetime of the sample buffers\<close>




subsection \<open>Sample counts\<close>



end
